theory Spec2Isabelle
  imports Complex_Main "HOL-Library.Sublist" "HOL-Library.Log_Nat"
begin

section \<open>Strings\<close>

text \<open>
  Texts are Isabelle strings: lists of 8-bit characters, a character outside ASCII being
  the bytes of its UTF-8 encoding. The three box-drawing characters of the response
  templates are written as their byte sequences.
\<close>

definition box_tee :: string where
  "box_tee = [CHR 0xE2, CHR 0x94, CHR 0x9C]"

definition box_dash :: string where
  "box_dash = [CHR 0xE2, CHR 0x94, CHR 0x80]"

definition box_corner :: string where
  "box_corner = [CHR 0xE2, CHR 0x94, CHR 0x94]"

text \<open>
  \<^verbatim>\<open>String.prototype.toLowerCase\<close>. The capital letters of ASCII are mapped to their
  small letters; every other byte is kept. (JavaScript also lowers capitals outside ASCII;
  no theorem below depends on how a character is lowered.)
\<close>

definition lower_char :: "char \<Rightarrow> char" where
  "lower_char c =
     (case map_of (zip ''ABCDEFGHIJKLMNOPQRSTUVWXYZ'' ''abcdefghijklmnopqrstuvwxyz'') c of
        Some l \<Rightarrow> l
      | None \<Rightarrow> c)"

definition toLowerCase :: "string \<Rightarrow> string" where
  "toLowerCase s = map lower_char s"

text \<open>
  \<^verbatim>\<open>String.prototype.includes\<close>: the key occurs in the text as a contiguous run of
  characters, at any position.
\<close>

fun str_includes :: "string \<Rightarrow> string \<Rightarrow> bool" where
  "str_includes [] k = (k = [])"
| "str_includes (c # cs) k = (prefix k (c # cs) \<or> str_includes cs k)"

section \<open>The response templates\<close>

text \<open>
  One function per template literal of \<^verbatim>\<open>simulateAssistantResponse\<close>, in the order of
  the source, one line of the literal per line here; \<^verbatim>\<open>${userMessage}\<close> is the
  argument.
\<close>

definition programmingTemplate :: "string \<Rightarrow> string" where
  \<open>programmingTemplate userMessage =
     ''Great question about programming! Here's what I can help you with:\<newline>'' @
     ''\<newline>'' @
     ''**'' @ userMessage @ ''**\<newline>'' @
     ''\<newline>'' @
     ''```javascript\<newline>'' @
     ''// Here's a practical example\<newline>'' @
     ''function solveProblem(input) {\<newline>'' @
     ''  // Process the input\<newline>'' @
     ''  const result = processData(input);\<newline>'' @
     ''  \<newline>'' @
     ''  // Return formatted result\<newline>'' @
     ''  return {\<newline>'' @
     ''    success: true,\<newline>'' @
     ''    data: result,\<newline>'' @
     ''    timestamp: new Date().toISOString()\<newline>'' @
     ''  };\<newline>'' @
     ''}\<newline>'' @
     ''\<newline>'' @
     ''// Usage example\<newline>'' @
     ''const solution = solveProblem("'' @ userMessage @ ''");\<newline>'' @
     ''console.log(solution);\<newline>'' @
     ''```\<newline>'' @
     ''\<newline>'' @
     ''**Key considerations:**\<newline>'' @
     ''- **Best practices**: Always follow clean code principles\<newline>'' @
     ''- **Performance**: Consider optimization for larger datasets  \<newline>'' @
     ''- **Error handling**: Implement proper try-catch blocks\<newline>'' @
     ''- **Testing**: Write unit tests for reliability\<newline>'' @
     ''\<newline>'' @
     ''Would you like me to dive deeper into any specific aspect of this implementation?''\<close>

definition mathTemplate :: "string \<Rightarrow> string" where
  \<open>mathTemplate userMessage =
     ''Let me help you with this mathematical/scientific concept:\<newline>'' @
     ''\<newline>'' @
     ''**Analysis of: "'' @ userMessage @ ''"**\<newline>'' @
     ''\<newline>'' @
     ''The approach to solving this involves several key steps:\<newline>'' @
     ''\<newline>'' @
     ''1. **Problem identification**: Understanding the core question\<newline>'' @
     ''2. **Method selection**: Choosing the appropriate formula or approach\<newline>'' @
     ''3. **Calculation process**: Step-by-step solution\<newline>'' @
     ''4. **Verification**: Checking our results\<newline>'' @
     ''\<newline>'' @
     ''```python\<newline>'' @
     ''# Mathematical solution approach\<newline>'' @
     ''import math\<newline>'' @
     ''\<newline>'' @
     ''def solve_problem(parameters):\<newline>'' @
     ''    """\<newline>'' @
     ''    Solve the mathematical problem step by step\<newline>'' @
     ''    """\<newline>'' @
     ''    # Step 1: Parse input parameters\<newline>'' @
     ''    # Step 2: Apply relevant formulas\<newline>'' @
     ''    # Step 3: Calculate result\<newline>'' @
     ''    \<newline>'' @
     ''    result = perform_calculation(parameters)\<newline>'' @
     ''    return result\<newline>'' @
     ''\<newline>'' @
     ''# Example usage\<newline>'' @
     ''answer = solve_problem("'' @ userMessage @ ''")\<newline>'' @
     ''print(f"Solution: {answer}")\<newline>'' @
     ''```\<newline>'' @
     ''\<newline>'' @
     ''> **Note**: This is a simplified example. Real-world applications may require more complex considerations.\<newline>'' @
     ''\<newline>'' @
     ''Would you like me to explain any specific part of this solution in more detail?''\<close>

definition businessTemplate :: "string \<Rightarrow> string" where
  \<open>businessTemplate userMessage =
     ''Excellent business question! Let me provide a strategic analysis:\<newline>'' @
     ''\<newline>'' @
     ''**Topic: "'' @ userMessage @ ''"**\<newline>'' @
     ''\<newline>'' @
     ''## Strategic Framework\<newline>'' @
     ''\<newline>'' @
     ''**1. Current Market Analysis**\<newline>'' @
     ''- Market size and growth potential\<newline>'' @
     ''- Competitive landscape assessment\<newline>'' @
     ''- Customer needs and pain points\<newline>'' @
     ''\<newline>'' @
     ''**2. Strategic Options**\<newline>'' @
     ''- **Option A**: Direct approach with immediate implementation\<newline>'' @
     ''- **Option B**: Phased rollout with market testing\<newline>'' @
     ''- **Option C**: Partnership-based strategy\<newline>'' @
     ''\<newline>'' @
     ''**3. Implementation Roadmap**\<newline>'' @
     ''```\<newline>'' @
     ''Phase 1: Research & Planning (Weeks 1-4)\<newline>'' @
     box_tee @ box_dash @ box_dash @ '' Market research\<newline>'' @
     box_tee @ box_dash @ box_dash @ '' Competitive analysis\<newline>'' @
     box_corner @ box_dash @ box_dash @ '' Resource allocation\<newline>'' @
     ''\<newline>'' @
     ''Phase 2: Development (Weeks 5-12)\<newline>'' @
     box_tee @ box_dash @ box_dash @ '' Product/service development\<newline>'' @
     box_tee @ box_dash @ box_dash @ '' Team building\<newline>'' @
     box_corner @ box_dash @ box_dash @ '' Initial testing\<newline>'' @
     ''\<newline>'' @
     ''Phase 3: Launch (Weeks 13-16)\<newline>'' @
     box_tee @ box_dash @ box_dash @ '' Go-to-market execution\<newline>'' @
     box_tee @ box_dash @ box_dash @ '' Performance monitoring\<newline>'' @
     box_corner @ box_dash @ box_dash @ '' Optimization\<newline>'' @
     ''```\<newline>'' @
     ''\<newline>'' @
     ''**Key Success Metrics:**\<newline>'' @
     ''- Customer acquisition cost (CAC)\<newline>'' @
     ''- Lifetime value (LTV)\<newline>'' @
     ''- Market penetration rate\<newline>'' @
     ''- Revenue growth\<newline>'' @
     ''\<newline>'' @
     ''*What specific aspect of this strategy would you like to explore further?*''\<close>

definition aiTemplate :: "string \<Rightarrow> string" where
  \<open>aiTemplate userMessage =
     ''Fascinating topic about AI and technology! Here's my analysis:\<newline>'' @
     ''\<newline>'' @
     ''**"'' @ userMessage @ ''"**\<newline>'' @
     ''\<newline>'' @
     ''## Current State of AI Technology\<newline>'' @
     ''\<newline>'' @
     ''**Large Language Models (LLMs)**\<newline>'' @
     ''- GPT-4, Claude, Gemini leading the space\<newline>'' @
     ''- Multimodal capabilities (text, image, code)\<newline>'' @
     ''- Reasoning and problem-solving improvements\<newline>'' @
     ''\<newline>'' @
     ''**Key Applications:**\<newline>'' @
     ''1. **Content Generation**: Writing, coding, creative work\<newline>'' @
     ''2. **Analysis & Research**: Data processing, insights\<newline>'' @
     ''3. **Automation**: Workflow optimization, decision support\<newline>'' @
     ''\<newline>'' @
     ''```python\<newline>'' @
     ''# AI Integration Example\<newline>'' @
     ''class AIAssistant:\<newline>'' @
     ''    def __init__(self, model_type="gpt-4"):\<newline>'' @
     ''        self.model = model_type\<newline>'' @
     ''        self.capabilities = [\<newline>'' @
     ''            "text_generation",\<newline>'' @
     ''            "code_analysis", \<newline>'' @
     ''            "problem_solving",\<newline>'' @
     ''            "creative_tasks"\<newline>'' @
     ''        ]\<newline>'' @
     ''    \<newline>'' @
     ''    def process_query(self, query):\<newline>'' @
     ''        # Analyze query intent\<newline>'' @
     ''        intent = self.analyze_intent(query)\<newline>'' @
     ''        \<newline>'' @
     ''        # Generate contextual response\<newline>'' @
     ''        response = self.generate_response(intent, query)\<newline>'' @
     ''        \<newline>'' @
     ''        return response\<newline>'' @
     ''\<newline>'' @
     ''# Usage\<newline>'' @
     ''assistant = AIAssistant()\<newline>'' @
     ''result = assistant.process_query("'' @ userMessage @ ''")\<newline>'' @
     ''```\<newline>'' @
     ''\<newline>'' @
     ''**Future Implications:**\<newline>'' @
     ''- Enhanced reasoning capabilities\<newline>'' @
     ''- Better multimodal understanding\<newline>'' @
     ''- More efficient and specialized models\<newline>'' @
     ''- Improved human-AI collaboration\<newline>'' @
     ''\<newline>'' @
     ''*What specific aspect of AI development interests you most?*''\<close>

definition explanationTemplate :: "string \<Rightarrow> string" where
  \<open>explanationTemplate userMessage =
     ''Let me explain this concept clearly:\<newline>'' @
     ''\<newline>'' @
     ''**"'' @ userMessage @ ''"**\<newline>'' @
     ''\<newline>'' @
     ''## Comprehensive Explanation\<newline>'' @
     ''\<newline>'' @
     ''**Core Concept:**\<newline>'' @
     ''The topic you're asking about involves several interconnected elements that work together to create the overall phenomenon or system.\<newline>'' @
     ''\<newline>'' @
     ''**Key Components:**\<newline>'' @
     ''- **Foundation**: The basic principles that underlie this concept\<newline>'' @
     ''- **Mechanisms**: How the different parts interact and function\<newline>'' @
     ''- **Applications**: Real-world uses and implementations\<newline>'' @
     ''- **Implications**: Broader effects and consequences\<newline>'' @
     ''\<newline>'' @
     ''**Detailed Breakdown:**\<newline>'' @
     ''\<newline>'' @
     ''1. **Primary Factors**\<newline>'' @
     ''   - Direct causes and influences\<newline>'' @
     ''   - Immediate effects and outcomes\<newline>'' @
     ''\<newline>'' @
     ''2. **Secondary Considerations**\<newline>'' @
     ''   - Indirect relationships\<newline>'' @
     ''   - Long-term implications\<newline>'' @
     ''\<newline>'' @
     ''3. **Practical Examples**\<newline>'' @
     ''   - Real-world applications\<newline>'' @
     ''   - Case studies and scenarios\<newline>'' @
     ''\<newline>'' @
     ''> **Key Insight**: Understanding this concept requires looking at both the individual components and how they work together as a system.\<newline>'' @
     ''\<newline>'' @
     ''**Related Topics:**\<newline>'' @
     ''- Connected concepts you might find interesting\<newline>'' @
     ''- Further reading suggestions\<newline>'' @
     ''- Areas for deeper exploration\<newline>'' @
     ''\<newline>'' @
     ''*Would you like me to elaborate on any particular aspect of this explanation?*''\<close>

definition designTemplate :: "string \<Rightarrow> string" where
  \<open>designTemplate userMessage =
     ''Great design question! Let me share some insights:\<newline>'' @
     ''\<newline>'' @
     ''**Design Challenge: "'' @ userMessage @ ''"**\<newline>'' @
     ''\<newline>'' @
     ''## Design Thinking Approach\<newline>'' @
     ''\<newline>'' @
     ''**1. Empathize & Define**\<newline>'' @
     ''- User needs and pain points\<newline>'' @
     ''- Context and constraints\<newline>'' @
     ''- Success criteria\<newline>'' @
     ''\<newline>'' @
     ''**2. Ideate & Prototype**\<newline>'' @
     ''- Brainstorming solutions\<newline>'' @
     ''- Rapid prototyping\<newline>'' @
     ''- Iterative refinement\<newline>'' @
     ''\<newline>'' @
     ''```css\<newline>'' @
     ''/* Design System Example */\<newline>'' @
     '':root {\<newline>'' @
     ''  --primary-color: #4e8cff;\<newline>'' @
     ''  --secondary-color: #7da6ff;\<newline>'' @
     ''  --background: #1c1c1e;\<newline>'' @
     ''  --surface: #2c2c2e;\<newline>'' @
     ''  --text-primary: #e5e5e7;\<newline>'' @
     ''  --text-secondary: #a1a1a6;\<newline>'' @
     ''}\<newline>'' @
     ''\<newline>'' @
     ''.design-component {\<newline>'' @
     ''  background: var(--surface);\<newline>'' @
     ''  color: var(--text-primary);\<newline>'' @
     ''  border-radius: 12px;\<newline>'' @
     ''  padding: 16px;\<newline>'' @
     ''  transition: all 0.2s ease;\<newline>'' @
     ''}\<newline>'' @
     ''\<newline>'' @
     ''.design-component:hover {\<newline>'' @
     ''  transform: translateY(-2px);\<newline>'' @
     ''  box-shadow: 0 8px 25px rgba(0,0,0,0.15);\<newline>'' @
     ''}\<newline>'' @
     ''```\<newline>'' @
     ''\<newline>'' @
     ''**Design Principles:**\<newline>'' @
     ''- **Clarity**: Clear visual hierarchy and information architecture\<newline>'' @
     ''- **Consistency**: Unified patterns and components\<newline>'' @
     ''- **Accessibility**: Inclusive design for all users\<newline>'' @
     ''- **Performance**: Optimized for speed and efficiency\<newline>'' @
     ''\<newline>'' @
     ''**Modern Trends:**\<newline>'' @
     ''- Minimalist interfaces with purposeful elements\<newline>'' @
     ''- Dark mode as a standard option\<newline>'' @
     ''- Micro-interactions for enhanced UX\<newline>'' @
     ''- Responsive design across all devices\<newline>'' @
     ''\<newline>'' @
     ''*What specific design challenge are you working on?*''\<close>

definition defaultTemplate :: "string \<Rightarrow> string" where
  \<open>defaultTemplate userMessage =
     ''Thank you for your question about "'' @ userMessage @ ''". Let me provide a thoughtful response:\<newline>'' @
     ''\<newline>'' @
     ''## Analysis & Insights\<newline>'' @
     ''\<newline>'' @
     ''**Understanding Your Question:**\<newline>'' @
     ''You've raised an interesting point that touches on several important aspects worth exploring.\<newline>'' @
     ''\<newline>'' @
     ''**Key Considerations:**\<newline>'' @
     ''\<newline>'' @
     ''1. **Context & Background**\<newline>'' @
     ''   - Historical perspective and development\<newline>'' @
     ''   - Current state and recent changes\<newline>'' @
     ''   - Influencing factors and variables\<newline>'' @
     ''\<newline>'' @
     ''2. **Multiple Perspectives**\<newline>'' @
     ''   - Different viewpoints and approaches\<newline>'' @
     ''   - Pros and cons of various options\<newline>'' @
     ''   - Stakeholder considerations\<newline>'' @
     ''\<newline>'' @
     ''3. **Practical Implications**\<newline>'' @
     ''   - Real-world applications\<newline>'' @
     ''   - Potential outcomes and consequences\<newline>'' @
     ''   - Implementation considerations\<newline>'' @
     ''\<newline>'' @
     ''**Actionable Insights:**\<newline>'' @
     ''- **Short-term**: Immediate steps you can take\<newline>'' @
     ''- **Medium-term**: Strategic planning and development\<newline>'' @
     ''- **Long-term**: Future considerations and planning\<newline>'' @
     ''\<newline>'' @
     ''```\<newline>'' @
     ''Framework for Analysis:\<newline>'' @
     box_tee @ box_dash @ box_dash @ '' Problem Definition\<newline>'' @
     box_tee @ box_dash @ box_dash @ '' Research & Data Gathering\<newline>'' @
     box_tee @ box_dash @ box_dash @ '' Option Evaluation\<newline>'' @
     box_tee @ box_dash @ box_dash @ '' Decision Making\<newline>'' @
     box_corner @ box_dash @ box_dash @ '' Implementation & Review\<newline>'' @
     ''```\<newline>'' @
     ''\<newline>'' @
     ''> **Key Takeaway**: The most effective approach often involves considering multiple factors and adapting based on specific circumstances and goals.\<newline>'' @
     ''\<newline>'' @
     ''**Next Steps:**\<newline>'' @
     ''- Identify your specific priorities and constraints\<newline>'' @
     ''- Gather additional information if needed\<newline>'' @
     ''- Consider testing or piloting approaches\<newline>'' @
     ''- Plan for monitoring and adjustment\<newline>'' @
     ''\<newline>'' @
     ''*What aspect of this topic would you like to explore in more depth?*''\<close>

section \<open>The response simulator\<close>

subsection \<open>Numbers\<close>

text \<open>
  A JavaScript number is an IEEE 754 double, and every arithmetic operation returns the
  double nearest to the exact result, the one with the even significand when two are
  equally near. Doubles are modelled as the reals they denote. Around a real \<open>x\<close> with
  \<open>2 ^ e \<le> \<bar>x\<bar> < 2 ^ (e + 1)\<close> the doubles are the multiples of \<open>2 ^ (e - 52)\<close>, and
  of \<open>2 ^ (- 1074)\<close> in the subnormal range; overflow, which needs \<open>2 ^ 1024 \<le> \<bar>x\<bar>\<close>,
  is not modelled.
\<close>

definition round_half_even :: "real \<Rightarrow> int" where
  "round_half_even y =
     (let f = \<lfloor>y\<rfloor> in
      if y - of_int f < 1 / 2 then f
      else if 1 / 2 < y - of_int f then f + 1
      else if even f then f else f + 1)"

text \<open>The exponent \<open>e\<close> of a positive real: \<open>2 ^ e \<le> x < 2 ^ (e + 1)\<close>.\<close>

definition exponent :: "real \<Rightarrow> int" where
  "exponent x =
     (if 1 \<le> x then int (floorlog 2 (nat \<lfloor>x\<rfloor>)) - 1
      else - int (floorlog 2 (nat (\<lceil>1 / x\<rceil> - 1))))"

definition quantum :: "real \<Rightarrow> real" where
  "quantum x = 2 powi (max (exponent \<bar>x\<bar> - 52) (- 1074))"

definition to_double :: "real \<Rightarrow> real" where
  "to_double x = (if x = 0 then 0 else of_int (round_half_even (x / quantum x)) * quantum x)"

subsection \<open>The simulator\<close>

text \<open>
  \<^verbatim>\<open>setTimeout(resolve, 800 + Math.random() * 1500)\<close>: the delay asked of the timer,
  in milliseconds, for the value \<open>random\<close> that \<^verbatim>\<open>Math.random()\<close> returned: the
  product is rounded, then the sum.
\<close>

definition simulateDelay :: "real \<Rightarrow> real" where
  "simulateDelay random = to_double (800 + to_double (random * 1500))"

text \<open>
  \<^verbatim>\<open>simulateAssistantResponse\<close>: the pair of the delay it waits for and the text its
  promise resolves with. The conditions are tested in the order of the source and the
  first one that holds returns.
\<close>

definition simulateAssistantResponse :: "real \<Rightarrow> string \<Rightarrow> real \<times> string" where
  "simulateAssistantResponse random userMessage =
     (simulateDelay random,
      let message = toLowerCase userMessage in
      if str_includes message ''code'' \<or>
         str_includes message ''programming'' \<or>
         str_includes message ''javascript'' \<or>
         str_includes message ''python'' \<or>
         str_includes message ''react'' \<or>
         str_includes message ''css'' \<or>
         str_includes message ''html''
      then programmingTemplate userMessage
      else if str_includes message ''math'' \<or>
         str_includes message ''calculate'' \<or>
         str_includes message ''formula'' \<or>
         str_includes message ''science'' \<or>
         str_includes message ''physics'' \<or>
         str_includes message ''chemistry''
      then mathTemplate userMessage
      else if str_includes message ''business'' \<or>
         str_includes message ''strategy'' \<or>
         str_includes message ''marketing'' \<or>
         str_includes message ''startup'' \<or>
         str_includes message ''company''
      then businessTemplate userMessage
      else if str_includes message ''ai'' \<or>
         str_includes message ''artificial intelligence'' \<or>
         str_includes message ''machine learning'' \<or>
         str_includes message ''technology'' \<or>
         str_includes message ''future''
      then aiTemplate userMessage
      else if str_includes message ''explain'' \<or>
         str_includes message ''what is'' \<or>
         str_includes message ''how does'' \<or>
         str_includes message ''why''
      then explanationTemplate userMessage
      else if str_includes message ''design'' \<or>
         str_includes message ''creative'' \<or>
         str_includes message ''art'' \<or>
         str_includes message ''ui'' \<or>
         str_includes message ''ux''
      then designTemplate userMessage
      else defaultTemplate userMessage)"

section \<open>Category selection as the specification words it\<close>

text \<open>
  The specification describes the simulator as a list of categories in a fixed priority
  order, each with a keyword set and a template: the first category one of whose keywords
  occurs in the lowercased text wins, and the default is used when none does. These
  definitions follow that wording; they are compared with the source's chain of
  conditionals below.
\<close>

datatype category =
  Programming | MathScience | BusinessStrategy | AITechnology | Explanatory | DesignCreative
  | Default

definition priority_order :: "category list" where
  "priority_order =
     [Programming, MathScience, BusinessStrategy, AITechnology, Explanatory, DesignCreative]"

fun category_keywords :: "category \<Rightarrow> string list" where
  "category_keywords Programming =
     [''code'', ''programming'', ''javascript'', ''python'', ''react'', ''css'', ''html'']"
| "category_keywords MathScience =
     [''math'', ''calculate'', ''formula'', ''science'', ''physics'', ''chemistry'']"
| "category_keywords BusinessStrategy =
     [''business'', ''strategy'', ''marketing'', ''startup'', ''company'']"
| "category_keywords AITechnology =
     [''ai'', ''artificial intelligence'', ''machine learning'', ''technology'', ''future'']"
| "category_keywords Explanatory = [''explain'', ''what is'', ''how does'', ''why'']"
| "category_keywords DesignCreative = [''design'', ''creative'', ''art'', ''ui'', ''ux'']"
| "category_keywords Default = []"

fun template_of :: "category \<Rightarrow> string \<Rightarrow> string" where
  "template_of Programming = programmingTemplate"
| "template_of MathScience = mathTemplate"
| "template_of BusinessStrategy = businessTemplate"
| "template_of AITechnology = aiTemplate"
| "template_of Explanatory = explanationTemplate"
| "template_of DesignCreative = designTemplate"
| "template_of Default = defaultTemplate"

definition category_matches :: "string \<Rightarrow> category \<Rightarrow> bool" where
  "category_matches message c = list_ex (str_includes message) (category_keywords c)"

definition select_category :: "string \<Rightarrow> category" where
  "select_category userMessage =
     (case find (category_matches (toLowerCase userMessage)) priority_order of
        Some c \<Rightarrow> c
      | None \<Rightarrow> Default)"


section \<open>JavaScript values and JSON\<close>

text \<open>
  The values the page holds at run time and stores as JSON. The TypeScript interface
  \<^verbatim>\<open>Message\<close> is not checked at run time (the stored data is read as \<^verbatim>\<open>any\<close>), so
  a message in memory is an object: a list of properties in insertion order. A number is
  kept as the text of its literal. The type \<open>'d\<close> is the type of \<^verbatim>\<open>Date\<close> values.
\<close>

text \<open>The exceptions of the page: \<open>Inl\<close> of a result is a thrown exception.\<close>

datatype error = SyntaxError | TypeError | RangeError

datatype 'd jsval =
    JUndefined
  | JNull
  | JBool bool
  | JNumber string
  | JString string
  | JDate 'd
  | JArray "'d jsval list"
  | JObject "(string \<times> 'd jsval) list"

text \<open>
  Reading a property (\<^verbatim>\<open>undefined\<close> when there is none) and writing one: an existing
  property keeps its place, a new one goes to the end.
\<close>

definition get_prop :: "(string \<times> 'd jsval) list \<Rightarrow> string \<Rightarrow> 'd jsval" where
  "get_prop props key = (case map_of props key of Some v \<Rightarrow> v | None \<Rightarrow> JUndefined)"

fun set_prop :: "(string \<times> 'd jsval) list \<Rightarrow> string \<Rightarrow> 'd jsval \<Rightarrow> (string \<times> 'd jsval) list" where
  "set_prop [] key v = [(key, v)]"
| "set_prop ((k, w) # props) key v =
     (if k = key then (k, v) # props else (k, w) # set_prop props key v)"

subsection \<open>JSON.stringify\<close>

text \<open>
  A string is written between quotation marks. A quotation mark and a reverse solidus are
  written after a reverse solidus; a control character below U+0020 is written as a
  reverse solidus and one of the letters \<^verbatim>\<open>b\<close>, \<^verbatim>\<open>f\<close>, \<^verbatim>\<open>n\<close>, \<^verbatim>\<open>r\<close>, \<^verbatim>\<open>t\<close>,
  or \<^verbatim>\<open>u00\<close> and its two hexadecimal digits.
\<close>

definition quotation_mark :: char where
  "quotation_mark = CHR 0x22"

definition reverse_solidus :: char where
  "reverse_solidus = CHR 0x5C"

definition hex_digit :: "nat \<Rightarrow> char" where
  "hex_digit n = ''0123456789abcdef'' ! n"

definition quote_char :: "char \<Rightarrow> string" where
  "quote_char c =
     (if c = quotation_mark then [reverse_solidus, quotation_mark]
      else if c = reverse_solidus then [reverse_solidus, reverse_solidus]
      else if c = CHR 0x08 then [reverse_solidus, CHR ''b'']
      else if c = CHR 0x0C then [reverse_solidus, CHR ''f'']
      else if c = CHR 0x0A then [reverse_solidus, CHR ''n'']
      else if c = CHR 0x0D then [reverse_solidus, CHR ''r'']
      else if c = CHR 0x09 then [reverse_solidus, CHR ''t'']
      else if (of_char c :: nat) < 32
        then [reverse_solidus, CHR ''u'', CHR ''0'', CHR ''0'',
              hex_digit ((of_char c :: nat) div 16), hex_digit ((of_char c :: nat) mod 16)]
      else [c])"

definition quoteJSONString :: "string \<Rightarrow> string" where
  "quoteJSONString s = quotation_mark # concat (map quote_char s) @ [quotation_mark]"

text \<open>The parts, with the separator between each two.\<close>

fun join :: "string \<Rightarrow> string list \<Rightarrow> string" where
  "join sep [] = []"
| "join sep [x] = x"
| "join sep (x # y # ys) = x @ sep @ join sep (y # ys)"

text \<open>
  The text of a value, \<open>None\<close> where \<^verbatim>\<open>JSON.stringify\<close> gives \<^verbatim>\<open>undefined\<close>. A date
  is written as the string of its \<^verbatim>\<open>toISOString\<close>, an invalid date (\<open>None\<close>) as
  \<^verbatim>\<open>null\<close>; an \<^verbatim>\<open>undefined\<close> element of an array is written \<^verbatim>\<open>null\<close>, and a
  property whose value is \<^verbatim>\<open>undefined\<close> is left out.
\<close>

fun serialize :: "('d \<Rightarrow> string option) \<Rightarrow> 'd jsval \<Rightarrow> string option" where
  "serialize toISOString JUndefined = None"
| "serialize toISOString JNull = Some ''null''"
| "serialize toISOString (JBool b) = Some (if b then ''true'' else ''false'')"
| "serialize toISOString (JNumber n) = Some n"
| "serialize toISOString (JString s) = Some (quoteJSONString s)"
| "serialize toISOString (JDate d) =
     Some (case toISOString d of Some t \<Rightarrow> quoteJSONString t | None \<Rightarrow> ''null'')"
| "serialize toISOString (JArray xs) =
     Some (''['' @
       join '',''
         (map (\<lambda>x. case serialize toISOString x of Some t \<Rightarrow> t | None \<Rightarrow> ''null'') xs) @
       '']'')"
| "serialize toISOString (JObject props) =
     Some (''{'' @
       join '',''
         (concat (map (\<lambda>p. case serialize toISOString (snd p) of
                               Some t \<Rightarrow> [quoteJSONString (fst p) @ '':'' @ t]
                             | None \<Rightarrow> []) props)) @
       ''}'')"

definition JSON_stringify :: "('d \<Rightarrow> string option) \<Rightarrow> 'd jsval \<Rightarrow> string" where
  "JSON_stringify toISOString v =
     (case serialize toISOString v of Some t \<Rightarrow> t | None \<Rightarrow> ''undefined'')"

subsection \<open>JSON.parse\<close>

text \<open>
  A recursive descent over the characters of the text, following the JSON grammar:
  white space, the literals, numbers (kept as their text), strings with their escapes,
  arrays and objects. An escape with \<^verbatim>\<open>u\<close> and four hexadecimal digits gives the UTF-8
  bytes of the code unit.
\<close>

definition is_ws :: "char \<Rightarrow> bool" where
  "is_ws c \<longleftrightarrow> c = CHR '' '' \<or> c = CHR 0x09 \<or> c = CHR 0x0A \<or> c = CHR 0x0D"

definition skip_ws :: "string \<Rightarrow> string" where
  "skip_ws cs = dropWhile is_ws cs"

definition is_digit :: "char \<Rightarrow> bool" where
  "is_digit c \<longleftrightarrow> c \<in> set ''0123456789''"

definition hex_value :: "char \<Rightarrow> nat option" where
  "hex_value c =
     map_of (zip ''0123456789abcdefABCDEF''
        [0, 1, 2, 3, 4, 5, 6, 7, 8, 9, 10, 11, 12, 13, 14, 15, 10, 11, 12, 13, 14, 15]) c"

definition hex4 :: "char \<Rightarrow> char \<Rightarrow> char \<Rightarrow> char \<Rightarrow> nat option" where
  "hex4 a b c d =
     (case (hex_value a, hex_value b, hex_value c, hex_value d) of
        (Some w, Some x, Some y, Some z) \<Rightarrow> Some (((w * 16 + x) * 16 + y) * 16 + z)
      | _ \<Rightarrow> None)"

definition utf8_encode :: "nat \<Rightarrow> string" where
  "utf8_encode n =
     (if n < 0x80 then [char_of n]
      else if n < 0x800 then [char_of (0xC0 + n div 64), char_of (0x80 + n mod 64)]
      else [char_of (0xE0 + n div 4096), char_of (0x80 + n div 64 mod 64),
            char_of (0x80 + n mod 64)])"

definition unescape :: "char \<Rightarrow> char option" where
  "unescape e =
     (if e = quotation_mark then Some quotation_mark
      else if e = reverse_solidus then Some reverse_solidus
      else if e = CHR ''/'' then Some (CHR ''/'')
      else if e = CHR ''b'' then Some (CHR 0x08)
      else if e = CHR ''f'' then Some (CHR 0x0C)
      else if e = CHR ''n'' then Some (CHR 0x0A)
      else if e = CHR ''r'' then Some (CHR 0x0D)
      else if e = CHR ''t'' then Some (CHR 0x09)
      else None)"

text \<open>
  The characters of a string after its opening quotation mark, up to the closing one: the
  string and the text that follows it.
\<close>

fun parse_string_chars :: "string \<Rightarrow> (string \<times> string) option" where
  "parse_string_chars [] = None"
| "parse_string_chars (c # cs) =
     (if c = quotation_mark then Some ([], cs)
      else if c = reverse_solidus then
        (case cs of
           [] \<Rightarrow> None
         | e # cs' \<Rightarrow>
             if e = CHR ''u'' then
               (case cs' of
                  h1 # h2 # h3 # h4 # rest \<Rightarrow>
                    (case hex4 h1 h2 h3 h4 of
                       None \<Rightarrow> None
                     | Some n \<Rightarrow>
                         map_option (apfst ((@) (utf8_encode n))) (parse_string_chars rest))
                | _ \<Rightarrow> None)
             else
               (case unescape e of
                  None \<Rightarrow> None
                | Some d \<Rightarrow> map_option (apfst ((#) d)) (parse_string_chars cs')))
      else if (of_char c :: nat) < 32 then None
      else map_option (apfst ((#) c)) (parse_string_chars cs))"

text \<open>
  A number: an optional minus sign, \<^verbatim>\<open>0\<close> or digits that do not start with \<^verbatim>\<open>0\<close>, an
  optional fraction and an optional exponent.
\<close>

definition digits1 :: "string \<Rightarrow> (string \<times> string) option" where
  "digits1 cs =
     (if takeWhile is_digit cs = [] then None
      else Some (takeWhile is_digit cs, dropWhile is_digit cs))"

definition lex_int :: "string \<Rightarrow> (string \<times> string) option" where
  "lex_int cs =
     (case cs of
        [] \<Rightarrow> None
      | c # rest \<Rightarrow>
          if c = CHR ''0'' then Some (''0'', rest)
          else digits1 cs)"

definition lex_frac :: "string \<Rightarrow> (string \<times> string) option" where
  "lex_frac cs =
     (case cs of
        [] \<Rightarrow> Some ([], cs)
      | c # rest \<Rightarrow>
          if c = CHR ''.'' then map_option (apfst ((#) c)) (digits1 rest)
          else Some ([], cs))"

definition lex_exp :: "string \<Rightarrow> (string \<times> string) option" where
  "lex_exp cs =
     (case cs of
        [] \<Rightarrow> Some ([], cs)
      | c # rest \<Rightarrow>
          if c = CHR ''e'' \<or> c = CHR ''E'' then
            (case rest of
               [] \<Rightarrow> None
             | s # rest' \<Rightarrow>
                 if s = CHR ''+'' \<or> s = CHR ''-''
                 then map_option (apfst (\<lambda>ds. c # s # ds)) (digits1 rest')
                 else map_option (apfst ((#) c)) (digits1 rest))
          else Some ([], cs))"

definition lex_number :: "string \<Rightarrow> (string \<times> string) option" where
  "lex_number cs =
     (let (sign, r0) = (case cs of
                          [] \<Rightarrow> ([], cs)
                        | c # rest \<Rightarrow> if c = CHR ''-'' then ([c], rest) else ([], cs))
      in case lex_int r0 of
           None \<Rightarrow> None
         | Some (i, r1) \<Rightarrow>
             (case lex_frac r1 of
                None \<Rightarrow> None
              | Some (f, r2) \<Rightarrow>
                  (case lex_exp r2 of
                     None \<Rightarrow> None
                   | Some (e, r3) \<Rightarrow> Some (sign @ i @ f @ e, r3))))"

text \<open>
  A value, the elements of an array after its opening bracket and the members of an object
  after its opening brace, each with the text that follows. A later member with the key of
  an earlier one replaces its value. The first argument bounds the depth of the calls; when
  it is used up the result is a RangeError, as for a stack overflow.
\<close>

fun parse_value :: "nat \<Rightarrow> string \<Rightarrow> error + ('d jsval \<times> string)"
  and parse_elements :: "nat \<Rightarrow> string \<Rightarrow> error + ('d jsval list \<times> string)"
  and parse_members :: "nat \<Rightarrow> string \<Rightarrow> error + ((string \<times> 'd jsval) list \<times> string)"
where
  "parse_value 0 cs = Inl RangeError"
| "parse_value (Suc n) cs =
     (case skip_ws cs of
        [] \<Rightarrow> Inl SyntaxError
      | c # rest \<Rightarrow>
          if c = CHR ''{'' then
            (case skip_ws rest of
               [] \<Rightarrow> Inl SyntaxError
             | c' # rest' \<Rightarrow>
                 if c' = CHR ''}'' then Inr (JObject [], rest')
                 else (case parse_members n rest of
                         Inl e \<Rightarrow> Inl e
                       | Inr (props, r) \<Rightarrow>
                           Inr (JObject (foldl (\<lambda>ps (k, v). set_prop ps k v) [] props), r)))
          else if c = CHR ''['' then
            (case skip_ws rest of
               [] \<Rightarrow> Inl SyntaxError
             | c' # rest' \<Rightarrow>
                 if c' = CHR '']'' then Inr (JArray [], rest')
                 else (case parse_elements n rest of
                         Inl e \<Rightarrow> Inl e
                       | Inr (xs, r) \<Rightarrow> Inr (JArray xs, r)))
          else if c = quotation_mark then
            (case parse_string_chars rest of
               None \<Rightarrow> Inl SyntaxError
             | Some (s, r) \<Rightarrow> Inr (JString s, r))
          else if prefix ''true'' (c # rest) then Inr (JBool True, drop 4 (c # rest))
          else if prefix ''false'' (c # rest) then Inr (JBool False, drop 5 (c # rest))
          else if prefix ''null'' (c # rest) then Inr (JNull, drop 4 (c # rest))
          else (case lex_number (c # rest) of
                  None \<Rightarrow> Inl SyntaxError
                | Some (lit, r) \<Rightarrow> Inr (JNumber lit, r)))"
| "parse_elements 0 cs = Inl RangeError"
| "parse_elements (Suc n) cs =
     (case parse_value n cs of
        Inl e \<Rightarrow> Inl e
      | Inr (v, r) \<Rightarrow>
          (case skip_ws r of
             [] \<Rightarrow> Inl SyntaxError
           | c # rest \<Rightarrow>
               if c = CHR '']'' then Inr ([v], rest)
               else if c = CHR '','' then
                 (case parse_elements n rest of
                    Inl e \<Rightarrow> Inl e
                  | Inr (vs, r') \<Rightarrow> Inr (v # vs, r'))
               else Inl SyntaxError))"
| "parse_members 0 cs = Inl RangeError"
| "parse_members (Suc n) cs =
     (case skip_ws cs of
        [] \<Rightarrow> Inl SyntaxError
      | q # rest \<Rightarrow>
          if q \<noteq> quotation_mark then Inl SyntaxError
          else (case parse_string_chars rest of
                  None \<Rightarrow> Inl SyntaxError
                | Some (k, r) \<Rightarrow>
                    (case skip_ws r of
                       [] \<Rightarrow> Inl SyntaxError
                     | c # r1 \<Rightarrow>
                         if c \<noteq> CHR '':'' then Inl SyntaxError
                         else (case parse_value n r1 of
                                 Inl e \<Rightarrow> Inl e
                               | Inr (v, r2) \<Rightarrow>
                                   (case skip_ws r2 of
                                      [] \<Rightarrow> Inl SyntaxError
                                    | c' # r3 \<Rightarrow>
                                        if c' = CHR ''}'' then Inr ([(k, v)], r3)
                                        else if c' = CHR '','' then
                                          (case parse_members n r3 of
                                             Inl e \<Rightarrow> Inl e
                                           | Inr (ps, r4) \<Rightarrow> Inr ((k, v) # ps, r4))
                                        else Inl SyntaxError)))))"

text \<open>
  \<^verbatim>\<open>JSON.parse\<close>: one value, with nothing but white space after it. The bound given
  here is never used up (\<open>JSON_parse_fuel\<close> below).
\<close>

definition JSON_parse :: "string \<Rightarrow> error + 'd jsval" where
  "JSON_parse text =
     (case parse_value (2 * length text + 2) text of
        Inl e \<Rightarrow> Inl e
      | Inr (v, rest) \<Rightarrow> if skip_ws rest = [] then Inr v else Inl SyntaxError)"

section \<open>The chat page\<close>

subsection \<open>Built-ins used by the page\<close>

text \<open>
  \<^verbatim>\<open>String.prototype.trim\<close>, for the white space of ASCII: tab, line feed, vertical tab,
  form feed, carriage return and space.
\<close>

definition is_space :: "char \<Rightarrow> bool" where
  "is_space c \<longleftrightarrow> c \<in> set [CHR 0x09, CHR 0x0A, CHR 0x0B, CHR 0x0C, CHR 0x0D, CHR '' '']"

definition trim :: "string \<Rightarrow> string" where
  "trim s = rev (dropWhile is_space (rev (dropWhile is_space s)))"

text \<open>
  \<^verbatim>\<open>Number.prototype.toString\<close> for an integer: its decimal digits, with a minus sign
  when it is negative. (\<^verbatim>\<open>Date.now()\<close> is an integer number of milliseconds.)
\<close>

definition digit_char :: "nat \<Rightarrow> char" where
  "digit_char n = ''0123456789'' ! n"

function nat_digits :: "nat \<Rightarrow> string" where
  "nat_digits n = (if n < 10 then [digit_char n] else nat_digits (n div 10) @ [digit_char (n mod 10)])"
  by pat_completeness auto
termination
  by (relation "measure id") auto

definition Number_toString :: "int \<Rightarrow> string" where
  "Number_toString i = (if i < 0 then CHR ''-'' # nat_digits (nat (- i)) else nat_digits (nat i))"

text \<open>
  The two operations of \<^verbatim>\<open>Date\<close> the page relies on: \<^verbatim>\<open>toISOString\<close>, which
  \<^verbatim>\<open>JSON.stringify\<close> calls through \<^verbatim>\<open>toJSON\<close> (\<open>None\<close> for an invalid date, which is
  stored as \<^verbatim>\<open>null\<close>), and the constructor \<^verbatim>\<open>new Date(v)\<close>. The calendar is not
  modelled: the type \<open>'d\<close> of dates and these two operations are parameters of the page.
\<close>

record 'd Date_api =
  toISOString :: "'d \<Rightarrow> string option"
  newDate :: "'d jsval \<Rightarrow> 'd"

subsection \<open>Messages\<close>

text \<open>
  \<^verbatim>\<open>interface Message { id: string; role: "user" | "assistant"; content: string; timestamp: Date }\<close>
  and the object an object literal with these four properties creates. The field
  \<open>id_str\<close> is the property \<^verbatim>\<open>id\<close>.
\<close>

datatype Role = User | Assistant

fun role_string :: "Role \<Rightarrow> string" where
  "role_string User = ''user''"
| "role_string Assistant = ''assistant''"

record 'd Message =
  id_str :: string
  role :: Role
  content :: string
  timestamp :: 'd

definition message_object :: "'d Message \<Rightarrow> 'd jsval" where
  "message_object m =
     JObject [(''id'', JString (id_str m)),
              (''role'', JString (role_string (role m))),
              (''content'', JString (content m)),
              (''timestamp'', JDate (timestamp m))]"



subsection \<open>State\<close>

text \<open>
  The state of \<^verbatim>\<open>ChatApp\<close> (\<open>messages\<close>, \<open>inputValue\<close>, \<open>isTyping\<close>), what it
  acts on outside itself (\<open>localStorage\<close>, and \<open>console\<close> for the lines written by
  \<^verbatim>\<open>console.error\<close>), and \<open>pending\<close>: the arguments of the calls of
  \<^verbatim>\<open>simulateAssistantResponse\<close> whose promise has not settled yet.
\<close>

record 'd page =
  messages :: "'d jsval list"
  inputValue :: string
  isTyping :: bool
  localStorage :: "string \<rightharpoonup> string"
  console :: "string list"
  pending :: "string list"

definition STORAGE_KEY :: string where
  "STORAGE_KEY = ''perplexity-chat-history''"

text \<open>The state of a freshly created component over a given storage.\<close>

definition initial_page :: "(string \<rightharpoonup> string) \<Rightarrow> 'd page" where
  "initial_page storage =
     \<lparr>messages = [], inputValue = [], isTyping = False, localStorage = storage,
      console = [], pending = []\<rparr>"

subsection \<open>Loading and saving the history\<close>

text \<open>
  The object spread \<^verbatim>\<open>{...msg}\<close> copies the own enumerable properties of \<^verbatim>\<open>msg\<close>:
  the properties of an object, the elements of an array and the characters of a string
  under their indices, nothing for the other values.
\<close>

definition index_keys :: "nat \<Rightarrow> string list" where
  "index_keys n = map (\<lambda>i. Number_toString (int i)) [0..<n]"

fun own_props :: "'d jsval \<Rightarrow> (string \<times> 'd jsval) list" where
  "own_props (JObject props) = props"
| "own_props (JArray xs) = zip (index_keys (length xs)) xs"
| "own_props (JString s) = zip (index_keys (length s)) (map (\<lambda>c. JString [c]) s)"
| "own_props _ = []"

text \<open>
  \<^verbatim>\<open>msg.timestamp\<close>: a TypeError on \<^verbatim>\<open>null\<close> and \<^verbatim>\<open>undefined\<close>, the property of
  an object, and \<^verbatim>\<open>undefined\<close> where there is no such property.
\<close>

fun read_timestamp :: "'d jsval \<Rightarrow> error + 'd jsval" where
  "read_timestamp JNull = Inl TypeError"
| "read_timestamp JUndefined = Inl TypeError"
| "read_timestamp (JObject props) = Inr (get_prop props ''timestamp'')"
| "read_timestamp _ = Inr JUndefined"

text \<open>
  The callback of the load: \<^verbatim>\<open>(msg) => ({ ...msg, timestamp: new Date(msg.timestamp) })\<close>.
\<close>

definition revive :: "'d Date_api \<Rightarrow> 'd jsval \<Rightarrow> error + 'd jsval" where
  "revive api msg =
     (case read_timestamp msg of
        Inl e \<Rightarrow> Inl e
      | Inr t \<Rightarrow> Inr (JObject (set_prop (own_props msg) ''timestamp'' (JDate (newDate api t)))))"

text \<open>
  \<^verbatim>\<open>Array.prototype.map\<close> with a callback that may throw: the first exception ends it.
\<close>

fun map_throwing :: "('a \<Rightarrow> error + 'b) \<Rightarrow> 'a list \<Rightarrow> error + 'b list" where
  "map_throwing f [] = Inr []"
| "map_throwing f (x # xs) =
     (case f x of
        Inl e \<Rightarrow> Inl e
      | Inr y \<Rightarrow> (case map_throwing f xs of Inl e \<Rightarrow> Inl e | Inr ys \<Rightarrow> Inr (y # ys)))"

text \<open>
  \<^verbatim>\<open>JSON.parse(savedMessages).map(...)\<close>: only an array has a method \<^verbatim>\<open>map\<close>; on any
  other parsed value the call is a TypeError.
\<close>

fun map_parsed :: "'d Date_api \<Rightarrow> 'd jsval \<Rightarrow> error + 'd jsval list" where
  "map_parsed api (JArray xs) = map_throwing (revive api) xs"
| "map_parsed api _ = Inl TypeError"

text \<open>
  The first effect, run once when the component is mounted. \<^verbatim>\<open>getItem\<close> returns
  \<^verbatim>\<open>null\<close> for a missing key, and \<^verbatim>\<open>if (savedMessages)\<close> also skips the empty
  string. Nothing catches an exception of \<^verbatim>\<open>JSON.parse\<close> or of the mapping: the
  effect then ends with it (\<open>Inl\<close>).
\<close>

definition loadEffect :: "'d Date_api \<Rightarrow> 'd page \<Rightarrow> error + 'd page" where
  "loadEffect api st =
     (case localStorage st STORAGE_KEY of
        None \<Rightarrow> Inr st
      | Some savedMessages \<Rightarrow>
          if savedMessages = [] then Inr st
          else (case JSON_parse savedMessages of
                  Inl e \<Rightarrow> Inl e
                | Inr parsed \<Rightarrow>
                    (case map_parsed api parsed of
                       Inl e \<Rightarrow> Inl e
                     | Inr parsedMessages \<Rightarrow> Inr (st\<lparr>messages := parsedMessages\<rparr>))))"

text \<open>
  The second effect, run after every render in which \<open>messages\<close> has changed.
\<close>

definition saveEffect :: "'d Date_api \<Rightarrow> 'd page \<Rightarrow> 'd page" where
  "saveEffect api st =
     (if length (messages st) > 0
      then st\<lparr>localStorage :=
             (localStorage st)(STORAGE_KEY \<mapsto>
                JSON_stringify (toISOString api) (JArray (messages st)))\<rparr>
      else st)"

text \<open>
  Mounting the component over a storage: the load effect, then the save effect on the
  messages it has set.
\<close>

definition mount :: "'d Date_api \<Rightarrow> (string \<rightharpoonup> string) \<Rightarrow> error + 'd page" where
  "mount api storage =
     (case loadEffect api (initial_page storage) of
        Inl e \<Rightarrow> Inl e
      | Inr st \<Rightarrow> Inr (saveEffect api st))"

subsection \<open>Handlers\<close>

text \<open>
  \<^verbatim>\<open>handleSendMessage\<close> up to its \<^verbatim>\<open>await\<close>. \<open>now\<close> is the value of
  \<^verbatim>\<open>Date.now()\<close> and \<open>date\<close> the value of \<^verbatim>\<open>new Date()\<close>. The result is the new
  state and the argument of the call of \<^verbatim>\<open>simulateAssistantResponse\<close> it makes,
  \<open>None\<close> when it returns before making one.
\<close>

definition handleSendMessage :: "int \<Rightarrow> 'd \<Rightarrow> 'd page \<Rightarrow> 'd page \<times> string option" where
  "handleSendMessage now date st =
     (if trim (inputValue st) = [] then (st, None)
      else
        let userMessage = message_object
              \<lparr>id_str = Number_toString now, role = User,
               content = trim (inputValue st), timestamp = date\<rparr>
        in (st\<lparr>messages := messages st @ [userMessage], inputValue := [], isTyping := True\<rparr>,
            Some (trim (inputValue st))))"

text \<open>
  \<^verbatim>\<open>handleSendMessage\<close> from the point where the awaited promise has settled, with
  the text it resolved with (\<open>Inr\<close>) or the exception it was rejected with (\<open>Inl\<close>):
  the rest of the \<^verbatim>\<open>try\<close> block, or the \<^verbatim>\<open>catch\<close> block, and then the
  \<^verbatim>\<open>finally\<close> block.
\<close>

definition handleSendMessage_resume ::
  "'e + string \<Rightarrow> int \<Rightarrow> 'd \<Rightarrow> 'd page \<Rightarrow> 'd page" where
  "handleSendMessage_resume outcome now date st =
     (case outcome of
        Inr assistantResponse \<Rightarrow>
          let assistantMessage = message_object
                \<lparr>id_str = Number_toString (now + 1), role = Assistant,
                 content = assistantResponse, timestamp = date\<rparr>
          in st\<lparr>messages := messages st @ [assistantMessage], isTyping := False\<rparr>
      | Inl err \<Rightarrow>
          st\<lparr>console := console st @ [''Error generating response:''], isTyping := False\<rparr>)"

definition handleKeyPress ::
  "string \<Rightarrow> bool \<Rightarrow> int \<Rightarrow> 'd \<Rightarrow> 'd page \<Rightarrow> 'd page \<times> string option" where
  "handleKeyPress key shiftKey now date st =
     (if key = ''Enter'' \<and> \<not> shiftKey then handleSendMessage now date st else (st, None))"

definition clearChat :: "'d page \<Rightarrow> 'd page" where
  "clearChat st = st\<lparr>messages := [], localStorage := (localStorage st)(STORAGE_KEY := None)\<rparr>"

subsection \<open>The controls and the events of the page\<close>

text \<open>
  The \<^verbatim>\<open>disabled\<close> attributes of the input field and of the send button. A disabled
  control delivers no key press, change or click to its handler.
\<close>

definition input_disabled :: "'d page \<Rightarrow> bool" where
  "input_disabled st \<longleftrightarrow> isTyping st"

definition send_disabled :: "'d page \<Rightarrow> bool" where
  "send_disabled st \<longleftrightarrow> trim (inputValue st) = [] \<or> isTyping st"

datatype 'd event =
    Change string
  | KeyPress string bool int 'd
  | ClickSend int 'd
  | ClickClear
  | Settle real int 'd

text \<open>
  A handler that has run to its \<^verbatim>\<open>await\<close>: the call it made, if any, is pending, and
  the save effect runs on the new messages.
\<close>

definition started :: "'d Date_api \<Rightarrow> 'd page \<times> string option \<Rightarrow> 'd page" where
  "started api r =
     (case r of
        (st, None) \<Rightarrow> st
      | (st, Some userMessage) \<Rightarrow> saveEffect api (st\<lparr>pending := pending st @ [userMessage]\<rparr>))"

text \<open>
  One event of the page. \<open>Settle random now date\<close> is the moment the oldest pending call
  of the simulator, which drew \<open>random\<close> for its delay, resolves and
  \<^verbatim>\<open>handleSendMessage\<close> resumes.
\<close>

fun step :: "'d Date_api \<Rightarrow> 'd event \<Rightarrow> 'd page \<Rightarrow> 'd page" where
  "step api (Change v) st = (if input_disabled st then st else st\<lparr>inputValue := v\<rparr>)"
| "step api (KeyPress key shiftKey now date) st =
     (if input_disabled st then st else started api (handleKeyPress key shiftKey now date st))"
| "step api (ClickSend now date) st =
     (if send_disabled st then st else started api (handleSendMessage now date st))"
| "step api ClickClear st = saveEffect api (clearChat st)"
| "step api (Settle random now date) st =
     (case pending st of
        [] \<Rightarrow> st
      | userMessage # rest \<Rightarrow>
          saveEffect api
            (handleSendMessage_resume
               (Inr (snd (simulateAssistantResponse random userMessage)) :: error + string)
               now date (st\<lparr>pending := rest\<rparr>)))"

text \<open>The states the page reaches from a mounted component by a sequence of events.\<close>

definition run :: "'d Date_api \<Rightarrow> 'd event list \<Rightarrow> 'd page \<Rightarrow> 'd page" where
  "run api events st = foldl (\<lambda>s e. step api e s) st events"

text \<open>
  At most one call of the simulator is pending, one is pending exactly while
  \<open>isTyping\<close> is set, and the input field is empty while it is set.
\<close>

definition one_in_flight :: "'d page \<Rightarrow> bool" where
  "one_in_flight st \<longleftrightarrow>
     length (pending st) \<le> 1 \<and> (isTyping st = (pending st \<noteq> [])) \<and>
     (\<not> isTyping st \<or> inputValue st = [])"


section \<open>Properties of the response simulator\<close>


lemma simulate_text_select:
  "snd (simulateAssistantResponse random userMessage) =
     template_of (select_category userMessage) userMessage"
  by (simp add: simulateAssistantResponse_def select_category_def priority_order_def
      category_matches_def Let_def)

lemma template_embeds_each:
  "\<exists>p q. programmingTemplate u = p @ u @ q"
  "\<exists>p q. mathTemplate u = p @ u @ q"
  "\<exists>p q. businessTemplate u = p @ u @ q"
  "\<exists>p q. aiTemplate u = p @ u @ q"
  "\<exists>p q. explanationTemplate u = p @ u @ q"
  "\<exists>p q. designTemplate u = p @ u @ q"
  "\<exists>p q. defaultTemplate u = p @ u @ q"
  unfolding programmingTemplate_def mathTemplate_def businessTemplate_def aiTemplate_def
    explanationTemplate_def designTemplate_def defaultTemplate_def
  by (metis append.assoc)+

lemma template_embeds:
  "\<exists>p q. template_of c userMessage = p @ userMessage @ q"
  by (cases c) (simp_all add: template_embeds_each)





lemma template_nonempty: "template_of c u \<noteq> []"
  by (cases c)
    (simp_all add: programmingTemplate_def mathTemplate_def businessTemplate_def
      aiTemplate_def explanationTemplate_def designTemplate_def defaultTemplate_def)






text \<open>
  C5. For every input text the text the simulator returns is not empty and contains the
  input text as it was given, not lowercased; the text does not depend on the random value,
  which only determines the delay.
\<close>

theorem simulate_text_embeds_input:
  "snd (simulateAssistantResponse random userMessage) \<noteq> []
   \<and> (\<exists>p q. snd (simulateAssistantResponse random userMessage) = p @ userMessage @ q)
   \<and> snd (simulateAssistantResponse random userMessage) =
       snd (simulateAssistantResponse random' userMessage)"
  by (simp only: simulate_text_select template_nonempty template_embeds simp_thms)



section \<open>The delay of the simulator\<close>

text \<open>
  Rounding to a double: the exponent brackets its argument between two powers of two,
  the rounded value is within half a quantum of the exact one, and it stays between two
  integers that the exact value lies between.
\<close>

lemma floorlog_numeral: "floorlog 2 (numeral k) = floorlog 2 (numeral k div 2) + 1"
  by (subst compute_floorlog) simp

lemma floorlog_small: "floorlog 2 0 = 0" "floorlog 2 1 = 1" "floorlog 2 (Suc 0) = 1"
  by (simp_all add: floorlog_def)

lemma round_half_even_bounds:
  "\<lfloor>y\<rfloor> \<le> round_half_even y" "round_half_even y \<le> \<lceil>y\<rceil>"
proof -
  show "\<lfloor>y\<rfloor> \<le> round_half_even y"
    by (simp add: round_half_even_def Let_def)
  have "\<lfloor>y\<rfloor> + 1 \<le> \<lceil>y\<rceil>" if "y - of_int \<lfloor>y\<rfloor> \<noteq> 0"
    using that by (metis ceiling_altdef diff_eq_eq add_0 order_refl)
  moreover have "\<lfloor>y\<rfloor> \<le> \<lceil>y\<rceil>" by (rule floor_le_ceiling)
  ultimately show "round_half_even y \<le> \<lceil>y\<rceil>"
    by (auto simp: round_half_even_def Let_def)
qed

lemma round_half_even_between:
  "of_int a \<le> y \<Longrightarrow> y \<le> of_int b \<Longrightarrow> a \<le> round_half_even y \<and> round_half_even y \<le> b"
  by (meson ceiling_le_iff le_floor_iff order_trans round_half_even_bounds)

lemma quantum_pos: "0 < quantum x"
  by (simp add: quantum_def)

lemma exponent_small:
  assumes "0 < x" and "x \<le> 2300"
  shows "exponent x \<le> 11"
proof (cases "1 \<le> x")
  case True
  have "nat \<lfloor>x\<rfloor> \<le> 2300" using assms by linarith
  then have "floorlog 2 (nat \<lfloor>x\<rfloor>) \<le> floorlog 2 2300" by (rule floorlog_mono)
  also have "floorlog 2 2300 = 12" by (simp add: floorlog_numeral floorlog_small)
  finally show ?thesis using True by (simp add: exponent_def)
next
  case False
  then show ?thesis by (simp add: exponent_def)
qed

lemma integer_on_grid:
  assumes "0 < x" and "x \<le> 2300"
  shows "\<exists>k. (of_int b :: real) = of_int k * quantum x"
proof -
  define q where "q = max (exponent \<bar>x\<bar> - 52) (- 1074)"
  have "exponent \<bar>x\<bar> \<le> 11" using assms exponent_small by simp
  then have q: "q \<le> 0" by (simp add: q_def)
  have qx: "quantum x = 2 powi q" by (simp add: quantum_def q_def)
  have "(2::real) powi q * 2 ^ nat (- q) = 1"
    using q by (simp add: power_int_def field_simps flip: power_mult_distrib)
  then have "(of_int b :: real) = of_int (b * 2 ^ nat (- q)) * 2 powi q"
    by (simp add: mult.assoc mult.commute)
  then show ?thesis unfolding qx by blast
qed

lemma to_double_between:
  assumes "0 \<le> a" and "of_int a \<le> x" and "x \<le> of_int b" and "b \<le> 2300"
  shows "of_int a \<le> to_double x \<and> to_double x \<le> of_int b"
proof (cases "x = 0")
  case True
  then show ?thesis using assms by (simp add: to_double_def)
next
  case False
  have "(0::real) \<le> of_int a" using assms(1) by simp
  with False assms(2) have pos: "0 < x" by linarith
  have "(of_int b :: real) \<le> 2300" using assms(4) by simp
  with assms(3) have le: "x \<le> 2300" by linarith
  obtain ka where ka: "(of_int a :: real) = of_int ka * quantum x"
    using integer_on_grid [OF pos le] by blast
  obtain kb where kb: "(of_int b :: real) = of_int kb * quantum x"
    using integer_on_grid [OF pos le] by blast
  have "of_int ka \<le> x / quantum x"
    using assms(2) quantum_pos [of x] by (simp add: ka pos_le_divide_eq)
  moreover have "x / quantum x \<le> of_int kb"
    using assms(3) quantum_pos [of x] by (simp add: kb pos_divide_le_eq)
  ultimately have "ka \<le> round_half_even (x / quantum x) \<and> round_half_even (x / quantum x) \<le> kb"
    by (rule round_half_even_between)
  then have "of_int ka * quantum x \<le> of_int (round_half_even (x / quantum x)) * quantum x
      \<and> of_int (round_half_even (x / quantum x)) * quantum x \<le> of_int kb * quantum x"
    using quantum_pos [of x] by (simp add: mult_le_cancel_right)
  then show ?thesis using False by (simp add: to_double_def ka kb)
qed

lemma delay_bounds:
  assumes "0 \<le> random" and "random < 1"
  shows "800 \<le> simulateDelay random \<and> simulateDelay random \<le> 2300"
proof -
  have "of_int 0 \<le> random * 1500" "random * 1500 \<le> of_int 1500"
    using assms by simp_all
  then have y: "of_int 0 \<le> to_double (random * 1500) \<and> to_double (random * 1500) \<le> of_int 1500"
    by (intro to_double_between) simp_all
  then have "of_int 800 \<le> 800 + to_double (random * 1500)"
    "800 + to_double (random * 1500) \<le> of_int 2300"
    by simp_all
  then have "of_int 800 \<le> simulateDelay random \<and> simulateDelay random \<le> of_int 2300"
    unfolding simulateDelay_def by (intro to_double_between) simp_all
  then show ?thesis by simp
qed

lemma round_half_even_near: "\<bar>of_int (round_half_even y) - y\<bar> \<le> 1 / 2"
proof -
  define d where "d = y - of_int \<lfloor>y\<rfloor>"
  have d: "0 \<le> d" "d < 1" unfolding d_def by linarith+
  have r: "round_half_even y = \<lfloor>y\<rfloor> \<or> round_half_even y = \<lfloor>y\<rfloor> + 1"
    by (simp add: round_half_even_def Let_def)
  have lo: "round_half_even y = \<lfloor>y\<rfloor>" if "d < 1 / 2"
    using that by (simp add: round_half_even_def Let_def d_def)
  have hi: "round_half_even y = \<lfloor>y\<rfloor> + 1" if "1 / 2 < d"
    using that by (simp add: round_half_even_def Let_def d_def)
  consider "d < 1 / 2" | "1 / 2 < d" | "d = 1 / 2" by linarith
  then show ?thesis
  proof cases
    case 1
    then have "of_int (round_half_even y) - y = - d" by (simp add: lo d_def)
    then show ?thesis using d 1 by simp
  next
    case 2
    then have "of_int (round_half_even y) - y = 1 - d" by (simp add: hi d_def)
    then show ?thesis using d 2 by simp
  next
    case 3
    from r have "of_int (round_half_even y) - y = - d \<or> of_int (round_half_even y) - y = 1 - d"
      by (auto simp: d_def)
    then show ?thesis using 3 by auto
  qed
qed

lemma to_double_near: "\<bar>to_double x - x\<bar> \<le> quantum x / 2"
proof (cases "x = 0")
  case True
  then show ?thesis using quantum_pos [of x] by (simp add: to_double_def)
next
  case False
  have "\<bar>of_int (round_half_even (x / quantum x)) - x / quantum x\<bar> * quantum x
      \<le> 1 / 2 * quantum x"
    using round_half_even_near quantum_pos [of x] by (intro mult_right_mono) simp_all
  moreover have "\<bar>of_int (round_half_even (x / quantum x)) - x / quantum x\<bar> * quantum x
      = \<bar>of_int (round_half_even (x / quantum x)) * quantum x - x\<bar>"
  proof -
    have "\<bar>of_int (round_half_even (x / quantum x)) - x / quantum x\<bar> * \<bar>quantum x\<bar>
      = \<bar>(of_int (round_half_even (x / quantum x)) - x / quantum x) * quantum x\<bar>"
      by (simp only: abs_mult)
    also have "(of_int (round_half_even (x / quantum x)) - x / quantum x) * quantum x
      = of_int (round_half_even (x / quantum x)) * quantum x - x"
      using quantum_pos [of x] by (simp add: left_diff_distrib)
    finally show ?thesis using quantum_pos [of x] by simp
  qed
  ultimately show ?thesis using False by (simp add: to_double_def)
qed

lemma quantum_small:
  assumes "0 < x" and "x \<le> 2300"
  shows "quantum x \<le> 1 / 2 ^ 41"
proof -
  have "exponent \<bar>x\<bar> \<le> 11" using assms exponent_small by simp
  then have "max (exponent \<bar>x\<bar> - 52) (- 1074) \<le> - 41" by simp
  then have "(2::real) powi max (exponent \<bar>x\<bar> - 52) (- 1074) \<le> 2 powi (- 41)"
    by (intro power_int_increasing) simp_all
  then show ?thesis by (simp add: quantum_def power_int_minus field_simps)
qed

lemma to_double_error:
  assumes "0 \<le> x" and "x \<le> 2300"
  shows "\<bar>to_double x - x\<bar> \<le> 1 / 2 ^ 42"
proof (cases "x = 0")
  case True
  then show ?thesis by (simp add: to_double_def)
next
  case False
  with assms have "quantum x \<le> 1 / 2 ^ 41" by (intro quantum_small) simp_all
  with to_double_near [of x] show ?thesis by simp
qed

lemma delay_accuracy:
  assumes "0 \<le> random" and "random < 1"
  shows "\<bar>simulateDelay random - (800 + random * 1500)\<bar> \<le> 1 / 2 ^ 41"
proof -
  have p: "0 \<le> random * 1500" "random * 1500 \<le> 2300" using assms by simp_all
  have e1: "\<bar>to_double (random * 1500) - random * 1500\<bar> \<le> 1 / 2 ^ 42"
    by (rule to_double_error [OF p])
  have "of_int 0 \<le> random * 1500" "random * 1500 \<le> of_int 1500" using assms by simp_all
  then have "of_int 0 \<le> to_double (random * 1500) \<and> to_double (random * 1500) \<le> of_int 1500"
    by (intro to_double_between) simp_all
  then have s: "0 \<le> 800 + to_double (random * 1500)" "800 + to_double (random * 1500) \<le> 2300"
    by simp_all
  have e2: "\<bar>simulateDelay random - (800 + to_double (random * 1500))\<bar> \<le> 1 / 2 ^ 42"
    unfolding simulateDelay_def by (rule to_double_error [OF s])
  from e1 e2 have "\<bar>simulateDelay random - (800 + random * 1500)\<bar> \<le> 1 / 2 ^ 42 + 1 / 2 ^ 42"
    by linarith
  also have "(1 / 2 ^ 42 + 1 / 2 ^ 42 :: real) = 1 / 2 ^ 41" by simp
  finally show ?thesis .
qed

lemma exponent_bounds:
  assumes "0 < x"
  shows "2 powi exponent x \<le> x \<and> x < 2 powi (exponent x + 1)"
proof (cases "1 \<le> x")
  case True
  define n where "n = nat \<lfloor>x\<rfloor>"
  have n: "0 < n" "real n \<le> x" "x < real n + 1"
    using True unfolding n_def by linarith+
  have b: "2 ^ (floorlog 2 n - 1) \<le> n \<and> n < 2 ^ floorlog 2 n"
    using n(1) by (intro floorlog_bounds) simp_all
  have pos: "0 < floorlog 2 n" using n(1) by (simp add: floorlog_def)
  have e: "exponent x = int (floorlog 2 n) - 1"
    using True by (simp add: exponent_def n_def)
  have lo: "(2::real) powi (int (floorlog 2 n) - 1) = 2 ^ (floorlog 2 n - 1)"
    using pos by (simp add: power_int_def nat_diff_distrib')
  have hi: "(2::real) powi (int (floorlog 2 n) - 1 + 1) = 2 ^ floorlog 2 n"
    by (simp add: power_int_def)
  have "(2::real) ^ (floorlog 2 n - 1) \<le> real n"
    using b by (metis of_nat_le_iff of_nat_numeral of_nat_power)
  moreover have "real n + 1 \<le> 2 ^ floorlog 2 n"
    using b by (metis Suc_leI of_nat_Suc of_nat_le_iff of_nat_numeral of_nat_power add.commute)
  ultimately show ?thesis
    using n unfolding e lo hi by linarith
next
  case False
  define y where "y = 1 / x"
  have y: "1 < y" using assms False by (simp add: y_def)
  define m where "m = nat (\<lceil>y\<rceil> - 1)"
  have m: "0 < m" "real m < y" "y \<le> real m + 1"
    using y unfolding m_def by linarith+
  have b: "2 ^ (floorlog 2 m - 1) \<le> m \<and> m < 2 ^ floorlog 2 m"
    using m(1) by (intro floorlog_bounds) simp_all
  have pos: "0 < floorlog 2 m" using m(1) by (simp add: floorlog_def)
  have e: "exponent x = - int (floorlog 2 m)"
    using False by (simp add: exponent_def m_def y_def)
  have "(2::real) ^ (floorlog 2 m - 1) \<le> real m"
    using b by (metis of_nat_le_iff of_nat_numeral of_nat_power)
  then have ylo: "(2::real) ^ (floorlog 2 m - 1) < y" using m by linarith
  have "real m + 1 \<le> 2 ^ floorlog 2 m"
    using b by (metis Suc_leI of_nat_Suc of_nat_le_iff of_nat_numeral of_nat_power add.commute)
  then have yhi: "y \<le> 2 ^ floorlog 2 m" using m by linarith
  have x: "x = 1 / y" using assms by (simp add: y_def)
  have lo: "(2::real) powi (- int (floorlog 2 m)) = 1 / 2 ^ floorlog 2 m"
    by (simp add: power_int_def field_simps)
  have hi: "(2::real) powi (- int (floorlog 2 m) + 1) = 1 / 2 ^ (floorlog 2 m - 1)"
  proof -
    have "- int (floorlog 2 m) + 1 = - int (floorlog 2 m - 1)" using pos by simp
    then show ?thesis by (simp only: power_int_minus power_int_of_nat) (simp add: field_simps)
  qed
  have "1 / 2 ^ floorlog 2 m \<le> 1 / y"
    using yhi y by (intro divide_left_mono) simp_all
  moreover have "1 / y < 1 / 2 ^ (floorlog 2 m - 1)"
  proof -
    have "0 < y * 2 ^ (floorlog 2 m - 1)" using y by simp
    with ylo show ?thesis by (intro divide_strict_left_mono) simp_all
  qed
  ultimately have "1 / 2 ^ floorlog 2 m \<le> x \<and> x < 1 / 2 ^ (floorlog 2 m - 1)"
    by (simp only: x)
  then show ?thesis unfolding e lo hi .
qed

text \<open>
  C9. The claim: the delay is \<open>800 + r * 1500\<close> for some \<open>0 \<le> r < 1\<close> and so lies in the
  half-open range from 800 to 2300. The delay is computed in double arithmetic, and for the
  largest double below 1, \<open>1 - 2 ^ (- 53)\<close>, the rounded product is \<open>1500 - 2 ^ (- 42)\<close> and
  the rounded sum is 2300 itself.
\<close>

theorem delay_reaches_2300:
  "to_double (1 - 1 / 2 ^ 53) = 1 - 1 / 2 ^ 53
   \<and> (0::real) \<le> 1 - 1 / 2 ^ 53 \<and> (1 - 1 / 2 ^ 53 :: real) < 1
   \<and> to_double ((1 - 1 / 2 ^ 53) * 1500) = 1500 - 1 / 2 ^ 42
   \<and> simulateDelay (1 - 1 / 2 ^ 53) = 2300
   \<and> \<not> simulateDelay (1 - 1 / 2 ^ 53) < 2300"
proof -
  have r: "to_double (1 - 1 / 2 ^ 53) = 1 - 1 / 2 ^ 53"
    by (simp add: to_double_def quantum_def exponent_def floorlog_numeral floorlog_small round_half_even_def Let_def)
  have p: "to_double ((1 - 1 / 2 ^ 53) * 1500) = 1500 - 1 / 2 ^ 42"
    by (simp add: to_double_def quantum_def exponent_def floorlog_numeral floorlog_small round_half_even_def Let_def)
  have s: "to_double (800 + (1500 - 1 / 2 ^ 42)) = 2300"
    by (simp add: to_double_def quantum_def exponent_def floorlog_numeral floorlog_small round_half_even_def Let_def)
  have d: "simulateDelay (1 - 1 / 2 ^ 53) = 2300"
    by (simp only: simulateDelay_def p s)
  have b: "(0::real) \<le> 1 - 1 / 2 ^ 53 \<and> (1 - 1 / 2 ^ 53 :: real) < 1"
    by simp
  have n: "\<not> simulateDelay (1 - 1 / 2 ^ 53) < 2300"
    unfolding d by simp
  from r b p d n show ?thesis by blast
qed

text \<open>
  C9, amended. For every value \<open>0 \<le> r < 1\<close> of \<^verbatim>\<open>Math.random()\<close> the delay is
  \<open>800 + r * 1500\<close> computed in double arithmetic: it differs from the exact value by at
  most \<open>2 ^ (- 41)\<close> and lies in the closed range from 800 to 2300.
\<close>

theorem delay_in_closed_range:
  assumes "0 \<le> random" and "random < 1"
  shows "fst (simulateAssistantResponse random userMessage) =
           to_double (800 + to_double (random * 1500))
     \<and> \<bar>fst (simulateAssistantResponse random userMessage) - (800 + random * 1500)\<bar> \<le> 1 / 2 ^ 41
     \<and> 800 \<le> fst (simulateAssistantResponse random userMessage)
     \<and> fst (simulateAssistantResponse random userMessage) \<le> 2300"
  using delay_accuracy [OF assms] delay_bounds [OF assms]
  by (simp add: simulateAssistantResponse_def simulateDelay_def)

theorem delay_in_closed_range_witness:
  "(0::real) \<le> 1 / 2 \<and> (1 / 2 :: real) < 1
   \<and> 800 \<le> fst (simulateAssistantResponse (1 / 2) ''hello'')
   \<and> fst (simulateAssistantResponse (1 / 2) ''hello'') \<le> 2300"
  using delay_in_closed_range [of "1 / 2" "''hello''"] by simp

section \<open>Properties of JSON.parse\<close>

subsection \<open>The parser always returns\<close>

lemma skip_ws_length: "length (skip_ws cs) \<le> length cs"
  by (simp add: skip_ws_def length_dropWhile_le)

lemma skip_ws_Cons_length: "skip_ws cs = c # rest \<Longrightarrow> Suc (length rest) \<le> length cs"
  using skip_ws_length [of cs] by simp

lemma parse_string_chars_length:
  "parse_string_chars cs = Some (s, r) \<Longrightarrow> length r \<le> length cs"
proof (induction cs arbitrary: s r rule: length_induct)
  case (1 cs)
  show ?case
  proof (cases cs)
    case Nil
    with 1 show ?thesis by simp
  next
    case (Cons c cs')
    note IH = 1(1)[rule_format]
    from 1(2) Cons show ?thesis
      by (auto simp: split: if_splits list.splits option.splits dest!: IH [rotated])
  qed
qed

lemma digits1_length: "digits1 cs = Some (ds, r) \<Longrightarrow> length r \<le> length cs"
  by (auto simp: digits1_def length_dropWhile_le split: if_splits)

lemma lex_number_length: "lex_number cs = Some (lit, r) \<Longrightarrow> length r \<le> length cs"
proof -
  assume a: "lex_number cs = Some (lit, r)"
  have i: "lex_int xs = Some (a, b) \<Longrightarrow> length b \<le> length xs" for xs a b
    by (auto simp: lex_int_def split: list.splits if_splits dest: digits1_length)
  have f: "lex_frac xs = Some (a, b) \<Longrightarrow> length b \<le> length xs" for xs a b
    by (auto simp: lex_frac_def split: list.splits if_splits dest: digits1_length)
  have e: "lex_exp xs = Some (a, b) \<Longrightarrow> length b \<le> length xs" for xs a b
    by (auto simp: lex_exp_def split: list.splits if_splits dest: digits1_length)
  from a show ?thesis
    by (auto simp: lex_number_def Let_def split: list.splits if_splits option.splits prod.splits
        dest!: i f e)
qed

lemma parse_rest_length:
  "(\<forall>cs v r. parse_value n cs = Inr (v :: 'd jsval, r) \<longrightarrow> length r \<le> length cs)
   \<and> (\<forall>cs vs r. parse_elements n cs = Inr (vs :: 'd jsval list, r) \<longrightarrow> length r \<le> length cs)
   \<and> (\<forall>cs ps r. parse_members n cs = Inr (ps :: (string \<times> 'd jsval) list, r) \<longrightarrow> length r \<le> length cs)"
proof (induction n)
  case 0
  show ?case by simp
next
  case (Suc n)
  then have V: "parse_value n cs = Inr (v :: 'd jsval, r) \<Longrightarrow> length r \<le> length cs"
    and E: "parse_elements n cs = Inr (vs :: 'd jsval list, r) \<Longrightarrow> length r \<le> length cs"
    and M: "parse_members n cs = Inr (ps :: (string \<times> 'd jsval) list, r) \<Longrightarrow> length r \<le> length cs"
    for cs v vs ps r by blast+
  have v: "length r \<le> length cs" if "parse_value (Suc n) cs = Inr (v :: 'd jsval, r)" for cs v r
  proof (cases "skip_ws cs")
    case Nil
    with that show ?thesis by simp
  next
    case (Cons c rest)
    then have l: "Suc (length rest) \<le> length cs" by (rule skip_ws_Cons_length)
    from that Cons show ?thesis
      using l
      by (auto split: if_splits list.splits sum.splits option.splits
          dest!: M E parse_string_chars_length lex_number_length skip_ws_Cons_length)
  qed
  have e: "length r \<le> length cs" if "parse_elements (Suc n) cs = Inr (vs :: 'd jsval list, r)" for cs vs r
    using that
    by (auto split: if_splits list.splits sum.splits dest!: V E skip_ws_Cons_length)
  have m: "length r \<le> length cs"
    if "parse_members (Suc n) cs = Inr (ps :: (string \<times> 'd jsval) list, r)" for cs ps r
    using that
    by (auto split: if_splits list.splits sum.splits option.splits
        dest!: V M parse_string_chars_length skip_ws_Cons_length)
  from v e m show ?case by blast
qed

lemma parse_enough_fuel:
  "(\<forall>cs. 2 * length cs + 1 \<le> n \<longrightarrow>
       (parse_value n cs :: error + ('d jsval \<times> string)) \<noteq> Inl RangeError)
   \<and> (\<forall>cs. 2 * length cs + 2 \<le> n \<longrightarrow>
       (parse_elements n cs :: error + ('d jsval list \<times> string)) \<noteq> Inl RangeError)
   \<and> (\<forall>cs. 2 * length cs + 2 \<le> n \<longrightarrow>
       (parse_members n cs :: error + ((string \<times> 'd jsval) list \<times> string)) \<noteq> Inl RangeError)"
proof (induction n)
  case 0
  show ?case by simp
next
  case (Suc n)
  then have V: "2 * length cs + 1 \<le> n \<Longrightarrow>
        (parse_value n cs :: error + ('d jsval \<times> string)) \<noteq> Inl RangeError"
    and E: "2 * length cs + 2 \<le> n \<Longrightarrow>
        (parse_elements n cs :: error + ('d jsval list \<times> string)) \<noteq> Inl RangeError"
    and M: "2 * length cs + 2 \<le> n \<Longrightarrow>
        (parse_members n cs :: error + ((string \<times> 'd jsval) list \<times> string)) \<noteq> Inl RangeError"
    for cs by blast+
  note L = parse_rest_length [of n, where 'd = 'd, rule_format]
  have v: "(parse_value (Suc n) cs :: error + ('d jsval \<times> string)) \<noteq> Inl RangeError"
    if "2 * length cs + 1 \<le> Suc n" for cs
  proof (cases "skip_ws cs")
    case Nil
    then show ?thesis by simp
  next
    case (Cons c rest)
    then have "Suc (length rest) \<le> length cs" by (rule skip_ws_Cons_length)
    with that have fuel: "2 * length rest + 2 \<le> n" by simp
    show ?thesis
      using Cons M [OF fuel] E [OF fuel]
      by (auto split: list.splits sum.splits option.splits)
  qed
  have e: "(parse_elements (Suc n) cs :: error + ('d jsval list \<times> string)) \<noteq> Inl RangeError"
    if "2 * length cs + 2 \<le> Suc n" for cs
  proof (cases "parse_value n cs :: error + ('d jsval \<times> string)")
    case (Inl err)
    moreover have "err \<noteq> RangeError" using V [of cs] that Inl by auto
    ultimately show ?thesis by simp
  next
    case (Inr p)
    obtain v r where p: "p = (v, r)" by (cases p)
    with Inr have r: "length r \<le> length cs" using L(1) by blast
    show ?thesis
    proof (cases "skip_ws r")
      case Nil
      with Inr p show ?thesis by simp
    next
      case (Cons c rest)
      then have "Suc (length rest) \<le> length r" by (rule skip_ws_Cons_length)
      with r that have "2 * length rest + 2 \<le> n" by simp
      then have "(parse_elements n rest :: error + ('d jsval list \<times> string)) \<noteq> Inl RangeError"
        by (rule E)
      with Inr p Cons show ?thesis by (auto split: sum.splits)
    qed
  qed
  have m: "(parse_members (Suc n) cs :: error + ((string \<times> 'd jsval) list \<times> string)) \<noteq> Inl RangeError"
    if "2 * length cs + 2 \<le> Suc n" for cs
  proof (cases "skip_ws cs")
    case Nil
    then show ?thesis by simp
  next
    case (Cons q rest)
    then have l0: "Suc (length rest) \<le> length cs" by (rule skip_ws_Cons_length)
    show ?thesis
    proof (cases "q \<noteq> quotation_mark \<or> parse_string_chars rest = None")
      case True
      with Cons show ?thesis by auto
    next
      case False
      then obtain k r where key: "parse_string_chars rest = Some (k, r)" by auto
      then have l1: "length r \<le> length rest" by (rule parse_string_chars_length)
      show ?thesis
      proof (cases "skip_ws r")
        case Nil
        with Cons False key show ?thesis by simp
      next
        case c: (Cons c r1)
        then have l2: "Suc (length r1) \<le> length r" by (rule skip_ws_Cons_length)
        show ?thesis
        proof (cases "parse_value n r1 :: error + ('d jsval \<times> string)")
          case (Inl err)
          have "2 * length r1 + 1 \<le> n" using that l0 l1 l2 by simp
          then have "err \<noteq> RangeError" using V [of r1] Inl by auto
          with Cons False key c Inl show ?thesis by simp
        next
          case (Inr p)
          obtain v r2 where p: "p = (v, r2)" by (cases p)
          with Inr have l3: "length r2 \<le> length r1" using L(1) by blast
          show ?thesis
          proof (cases "skip_ws r2")
            case Nil
            with Cons False key c Inr p show ?thesis by simp
          next
            case c': (Cons c' r3)
            then have "Suc (length r3) \<le> length r2" by (rule skip_ws_Cons_length)
            with that l0 l1 l2 l3 have "2 * length r3 + 2 \<le> n" by simp
            then have "(parse_members n r3 :: error + ((string \<times> 'd jsval) list \<times> string))
                \<noteq> Inl RangeError"
              by (rule M)
            with Cons False key c Inr p c' show ?thesis by (auto split: sum.splits)
          qed
        qed
      qed
    qed
  qed
  from v e m show ?case by blast
qed

lemma JSON_parse_fuel: "(JSON_parse text :: error + 'd jsval) \<noteq> Inl RangeError"
proof -
  have "(parse_value (2 * length text + 2) text :: error + ('d jsval \<times> string)) \<noteq> Inl RangeError"
    using parse_enough_fuel [of "2 * length text + 2", where 'd = 'd] by simp
  then show ?thesis
    by (auto simp: JSON_parse_def split: sum.splits)
qed

subsection \<open>A stored history is read back\<close>













lemma message_text:
  "JSON_stringify toISO (message_object m) =
     CHR ''{'' # quoteJSONString ''id'' @ '':'' @ quoteJSONString (id_str m) @ CHR '','' #
       quoteJSONString ''role'' @ '':'' @ quoteJSONString (role_string (role m)) @ CHR '','' #
       quoteJSONString ''content'' @ '':'' @ quoteJSONString (content m) @ CHR '','' #
       quoteJSONString ''timestamp'' @ '':'' @
       (case toISO (timestamp m) of Some t \<Rightarrow> quoteJSONString t | None \<Rightarrow> ''null'') @ ''}''"
  by (simp add: JSON_stringify_def message_object_def)



lemma message_text_first:
  "\<exists>body. JSON_stringify toISO (message_object m) @ rest = CHR ''{'' # body"
  by (simp add: message_text)








section \<open>Properties of the page\<close>




lemma saveEffect_fields:
  "messages (saveEffect api st) = messages st"
  "inputValue (saveEffect api st) = inputValue st"
  "isTyping (saveEffect api st) = isTyping st"
  "console (saveEffect api st) = console st"
  "pending (saveEffect api st) = pending st"
  by (simp_all add: saveEffect_def)

lemma saveEffect_empty: "messages st = [] \<Longrightarrow> saveEffect api st = st"
  by (simp add: saveEffect_def)

lemma loadEffect_absent:
  "localStorage st STORAGE_KEY = None \<Longrightarrow> loadEffect api st = Inr st"
  by (simp add: loadEffect_def)

lemma step_one_in_flight: "one_in_flight st \<Longrightarrow> one_in_flight (step api e st)"
proof (cases e)
  case (Change v)
  then show "one_in_flight st \<Longrightarrow> ?thesis"
    by (auto simp: one_in_flight_def input_disabled_def)
next
  case (KeyPress key shiftKey now date)
  then show "one_in_flight st \<Longrightarrow> ?thesis"
    by (auto simp: one_in_flight_def input_disabled_def handleKeyPress_def handleSendMessage_def
        started_def saveEffect_fields Let_def)
next
  case (ClickSend now date)
  then show "one_in_flight st \<Longrightarrow> ?thesis"
    by (auto simp: one_in_flight_def send_disabled_def handleSendMessage_def
        started_def saveEffect_fields Let_def)
next
  case ClickClear
  then show "one_in_flight st \<Longrightarrow> ?thesis"
    by (auto simp: one_in_flight_def clearChat_def saveEffect_fields)
next
  case (Settle random now date)
  then show "one_in_flight st \<Longrightarrow> ?thesis"
    by (cases "pending st")
      (auto simp: one_in_flight_def handleSendMessage_resume_def saveEffect_fields Let_def)
qed

lemma run_one_in_flight: "one_in_flight st \<Longrightarrow> one_in_flight (run api events st)"
  unfolding run_def
  by (induction events arbitrary: st) (simp_all add: step_one_in_flight)

lemma mount_one_in_flight: "mount api storage = Inr st \<Longrightarrow> one_in_flight st"
  by (auto simp: mount_def loadEffect_def initial_page_def one_in_flight_def saveEffect_fields
      split: option.splits if_splits sum.splits)







lemma parse_examples:
  "(JSON_parse ''not json'' :: error + 'd jsval) = Inl SyntaxError"
  "(JSON_parse ''{}'' :: error + 'd jsval) = Inr (JObject [])"
  "(JSON_parse ''[null]'' :: error + 'd jsval) = Inr (JArray [JNull])"
  "(JSON_parse ''[1]'' :: error + 'd jsval) = Inr (JArray [JNumber ''1''])"
  by (simp_all add: JSON_parse_def eval_nat_numeral skip_ws_def is_ws_def quotation_mark_def
      lex_number_def lex_int_def lex_frac_def lex_exp_def digits1_def is_digit_def)

text \<open>
  C1. The claim: whatever is stored under the history key, the load leaves the messages
  empty and raises nothing. The load effect has no handler around \<^verbatim>\<open>JSON.parse\<close> and the
  mapping: on stored text that is not JSON it ends with a SyntaxError, on JSON that is not
  an array, or an array with a \<^verbatim>\<open>null\<close> element, with a TypeError, and on an array of
  other values it sets messages that are not empty.
\<close>

theorem load_malformed_history_throws:
  "loadEffect api (initial_page [STORAGE_KEY \<mapsto> ''not json'']) = Inl SyntaxError
   \<and> loadEffect api (initial_page [STORAGE_KEY \<mapsto> ''{}'']) = Inl TypeError
   \<and> loadEffect api (initial_page [STORAGE_KEY \<mapsto> ''[null]'']) = Inl TypeError
   \<and> mount api [STORAGE_KEY \<mapsto> ''not json''] = Inl SyntaxError
   \<and> (\<exists>st. loadEffect api (initial_page [STORAGE_KEY \<mapsto> ''[1]'']) = Inr st
          \<and> messages st = [JObject [(''timestamp'', JDate (newDate api JUndefined))]])"
  by (simp add: loadEffect_def mount_def initial_page_def parse_examples revive_def)








text \<open>
  C8. While \<open>isTyping\<close> is set the input field and the send button are disabled, so a
  click on the button, a key press and a change of the input leave the state as it is:
  no message is appended and no call of the simulator is made. In every state the page
  reaches from a mounted component at most one call of the simulator is pending, one is
  pending exactly while \<open>isTyping\<close> is set, and while it is set \<^verbatim>\<open>handleSendMessage\<close>
  itself, the input being empty, returns without doing anything.
\<close>

theorem no_submission_while_awaiting:
  "(isTyping st \<longrightarrow>
      step api (ClickSend now date) st = st
      \<and> step api (KeyPress key shiftKey now date) st = st
      \<and> step api (Change v) st = st)
   \<and> (mount api storage = Inr st0 \<and> s = run api events st0 \<longrightarrow>
      length (pending s) \<le> 1
      \<and> isTyping s = (pending s \<noteq> [])
      \<and> (isTyping s \<longrightarrow> handleSendMessage now date s = (s, None)))"
proof (intro conjI impI)
  assume "mount api storage = Inr st0 \<and> s = run api events st0"
  then have inv: "one_in_flight s"
    using mount_one_in_flight run_one_in_flight by blast
  then show "length (pending s) \<le> 1" "isTyping s = (pending s \<noteq> [])"
    by (simp_all add: one_in_flight_def)
  assume "isTyping s"
  with inv show "handleSendMessage now date s = (s, None)"
    by (simp add: one_in_flight_def handleSendMessage_def trim_def)
qed (simp_all add: send_disabled_def input_disabled_def)

theorem no_submission_while_awaiting_witness:
  "mount \<lparr>toISOString = (\<lambda>d. Some ''2026-11-02T08:00:00.000Z''), newDate = (\<lambda>v. ())\<rparr> Map.empty = Inr (initial_page Map.empty)
   \<and> isTyping (run \<lparr>toISOString = (\<lambda>d. Some ''2026-11-02T08:00:00.000Z''), newDate = (\<lambda>v. ())\<rparr> [Change ''hi'', ClickSend 7 ()] (initial_page Map.empty))
   \<and> step \<lparr>toISOString = (\<lambda>d. Some ''2026-11-02T08:00:00.000Z''), newDate = (\<lambda>v. ())\<rparr> (ClickSend 9 ())
       (run \<lparr>toISOString = (\<lambda>d. Some ''2026-11-02T08:00:00.000Z''), newDate = (\<lambda>v. ())\<rparr> [Change ''hi'', ClickSend 7 ()] (initial_page Map.empty)) =
     run \<lparr>toISOString = (\<lambda>d. Some ''2026-11-02T08:00:00.000Z''), newDate = (\<lambda>v. ())\<rparr> [Change ''hi'', ClickSend 7 ()] (initial_page Map.empty)
   \<and> length (pending (run \<lparr>toISOString = (\<lambda>d. Some ''2026-11-02T08:00:00.000Z''), newDate = (\<lambda>v. ())\<rparr> [Change ''hi'', ClickSend 7 ()] (initial_page Map.empty))) \<le> 1"
proof -
  have mounted: "mount \<lparr>toISOString = (\<lambda>d. Some ''2026-11-02T08:00:00.000Z''), newDate = (\<lambda>v. ())\<rparr> Map.empty = Inr (initial_page Map.empty)"
    by (simp add: mount_def loadEffect_def saveEffect_def initial_page_def)
  have busy: "isTyping (run \<lparr>toISOString = (\<lambda>d. Some ''2026-11-02T08:00:00.000Z''), newDate = (\<lambda>v. ())\<rparr> [Change ''hi'', ClickSend 7 ()] (initial_page Map.empty))"
    by (simp add: run_def initial_page_def input_disabled_def send_disabled_def trim_def
        is_space_def handleSendMessage_def started_def saveEffect_fields Let_def)
  from no_submission_while_awaiting
    [of "run \<lparr>toISOString = (\<lambda>d. Some ''2026-11-02T08:00:00.000Z''), newDate = (\<lambda>v. ())\<rparr> [Change ''hi'', ClickSend 7 ()] (initial_page Map.empty)"
        "\<lparr>toISOString = (\<lambda>d. Some ''2026-11-02T08:00:00.000Z''), newDate = (\<lambda>v. ())\<rparr>" 9 "()" _ _ _ Map.empty "initial_page Map.empty"
        "run \<lparr>toISOString = (\<lambda>d. Some ''2026-11-02T08:00:00.000Z''), newDate = (\<lambda>v. ())\<rparr> [Change ''hi'', ClickSend 7 ()] (initial_page Map.empty)"
        "[Change ''hi'', ClickSend 7 ()]"]
    mounted busy
  show ?thesis by blast
qed

end
